theory Spec2Isabelle
  imports Complex_Main "HOL-Library.Sublist" "HOL-Library.List_Lexorder" "HOL-Library.Char_ord"
begin

section \<open>Texts\<close>

text \<open>
  A review text is a \<open>string\<close>; a review that may be absent (Python's \<open>None\<close>) is a
  \<open>string option\<close>. Characters stand for the bytes of the UTF-8 form of the text. The
  vocabulary and all keywords are ASCII, and an ASCII pattern occurs in a text exactly when
  its bytes occur in the UTF-8 bytes of the text, so the substring test \<open>p in text\<close> is
  \<^const>\<open>sublist\<close>.

  \<open>str.lower\<close> follows the Unicode tables, which are not part of the sources. It is a
  parameter, \<open>lower\<close>, of every function that calls it, and the theorems hold for every
  such function. What is known of it is stated where it is needed: it maps the empty text
  to the empty text, and on a text of ASCII characters it is \<open>ascii_lower\<close>, which maps
  \<open>A\<close> to \<open>Z\<close> to \<open>a\<close> to \<open>z\<close> and keeps every other character.
\<close>

definition lower_char :: "char \<Rightarrow> char" where
  "lower_char c =
     (if CHR ''A'' \<le> c \<and> c \<le> CHR ''Z'' then char_of (of_char c + (32::nat)) else c)"

definition ascii_lower :: "string \<Rightarrow> string" where
  "ascii_lower s = map lower_char s"

definition ascii :: "string \<Rightarrow> bool" where
  "ascii s = list_all (\<lambda>c. c < CHR 0x80) s"

text \<open>
  Two characters are the same letter up to case when they are equal, or one is an ASCII
  capital and the other is the small letter that stands 32 places after it. Two texts
  differ only in the case of their ASCII letters when they have the same length and their
  characters are pairwise so related.
\<close>

definition same_letter :: "char \<Rightarrow> char \<Rightarrow> bool" where
  "same_letter a b =
     (a = b
      \<or> (CHR ''A'' \<le> a \<and> a \<le> CHR ''Z'' \<and> of_char b = of_char a + (32::nat))
      \<or> (CHR ''A'' \<le> b \<and> b \<le> CHR ''Z'' \<and> of_char a = of_char b + (32::nat)))"

definition differ_in_case_only :: "string \<Rightarrow> string \<Rightarrow> bool" where
  "differ_in_case_only s t = list_all2 same_letter s t"

text \<open>\<open>review or ""\<close>: an absent review (and the empty one) is the empty text.\<close>

definition or_empty :: "string option \<Rightarrow> string" where
  "or_empty review = (case review of None \<Rightarrow> [] | Some s \<Rightarrow> s)"

section \<open>Extracting products from reviews\<close>

definition product_list :: "string list" where
  "product_list =
     [''delivery'', ''packaging'', ''taste'', ''quality'', ''price'', ''refund'',
      ''app'', ''support'', ''burger'', ''pizza'', ''fries'', ''sauce'', ''combo'',
      ''subscription'', ''drink'', ''beverage'']"

text \<open>
  The body of the loop of \<open>extract_products_from_reviews\<close>:
  \<^verbatim>\<open>text = (review or "").lower()\<close> and
  \<^verbatim>\<open>products_found = [p for p in product_list if p in text]\<close>.
\<close>

definition products_found :: "(string \<Rightarrow> string) \<Rightarrow> string option \<Rightarrow> string list" where
  "products_found lower review =
     (let text = lower (or_empty review) in filter (\<lambda>p. sublist p text) product_list)"

text \<open>
  \<^verbatim>\<open>sorted(list(set(products_found)))\<close>: the elements of the set, each once, in
  ascending order. The order in which Python enumerates the set does not matter, since
  sorting distinct elements has one result (lemma \<open>sort_enumeration\<close> below).
\<close>

definition sorted_set :: "string list \<Rightarrow> string list" where
  "sorted_set xs = sort (remdups xs)"

fun extract_loop ::
  "(string \<Rightarrow> string) \<Rightarrow> string option list \<Rightarrow> string list list \<Rightarrow> string list list" where
  "extract_loop lower [] transactions = transactions"
| "extract_loop lower (review # reviews) transactions =
     (let found = products_found lower review in
      if found \<noteq> [] then extract_loop lower reviews (transactions @ [sorted_set found])
      else extract_loop lower reviews transactions)"

definition extract_products_from_reviews ::
  "(string \<Rightarrow> string) \<Rightarrow> string option list \<Rightarrow> string list list" where
  "extract_products_from_reviews lower reviews = extract_loop lower reviews []"

text \<open>
  The tags of the vocabulary that occur in a review, as a set: the notion the
  specification of the extractor is written in.
\<close>

definition tags_in :: "(string \<Rightarrow> string) \<Rightarrow> string option \<Rightarrow> string set" where
  "tags_in lower review = {p \<in> set product_list. sublist p (lower (or_empty review))}"

section \<open>Keyword-based recommendations\<close>

definition positive_keywords :: "string list" where
  "positive_keywords =
     [''good'', ''like'', ''love'', ''wonderful'', ''super'', ''amazing'',
      ''marvellous'', ''surprised'', ''great'', ''excellent'', ''fantastic'',
      ''awesome'', ''perfect'']"

definition negative_keywords :: "string list" where
  "negative_keywords =
     [''hate'', ''bad'', ''poor'', ''disgusting'', ''waste'', ''not happy'',
      ''don't like'', ''disappointed'', ''awful'', ''not satisfied'', ''horrible'',
      ''terrible'', ''worst'']"

definition neutral_keywords :: "string list" where
  "neutral_keywords =
     [''okay'', ''average'', ''fine'', ''moderate'', ''fair'', ''sufficient'',
      ''normal'', ''acceptable'', ''regular'', ''standard'', ''routine'',
      ''usual'', ''ordinary'', ''typical'', ''not sure'', ''perhaps'', ''maybe'',
      ''decent'', ''not bad'', ''satisfactory'']"

text \<open>
  Two characters of the templates are outside ASCII: the em dash (U+2014) and the right
  single quotation mark (U+2019). They are written as their UTF-8 bytes.
\<close>

definition em_dash :: string where
  "em_dash = [CHR 0xE2, CHR 0x80, CHR 0x94]"

definition right_quote :: string where
  "right_quote = [CHR 0xE2, CHR 0x80, CHR 0x99]"

definition positive_recommendations :: "string list" where
  "positive_recommendations =
     [''It's great to see your positive experience! We recommend trying our new flavors as well; they're fantastic!'',
      ''Since you enjoyed this product, you might also like our complementary items that enhance the experience!'',
      ''We're glad you loved this! You should check out our loyalty deals for even better value!'',
      ''Glad to hear you're satisfied! Don't miss our upcoming promotions that might interest you.'',
      ''Based on your positive review, you might enjoy our subscription service for regular deliveries!'']"

definition negative_recommendations :: "string list" where
  "negative_recommendations =
     [''We appreciate your feedback! Please reach out to our customer service for immediate assistance.'',
      ''Thanks for sharing your experience. Our troubleshooting guide might offer a quick solution.'',
      ''Sorry to hear that! Check our FAQs for tips that can help resolve it quickly.'',
      ''Thanks for your honesty! Stay tuned '' @ em_dash @ '' we'' @ right_quote @ ''re actively improving this area.'',
      ''We value your input. Our customer care can offer personalized support.'',
      ''We'' @ right_quote @ ''re sorry about the experience. Please try our latest update '' @ em_dash @ '' we'' @ right_quote @ ''re continually improving.'']"

definition neutral_recommendations :: "string list" where
  "neutral_recommendations =
     [''Thanks for your balanced feedback! We'' @ right_quote @ ''re working on making things even better.'',
      ''We appreciate your input. Do check back soon '' @ em_dash @ '' improvements are always ongoing.'',
      ''Your thoughts are valuable. Stay tuned for upcoming updates that may enhance your experience.'',
      ''Thanks for the fair review! We'd love to hear more details to help us improve.'',
      ''We'' @ right_quote @ ''re glad things were okay! We aim to make them great next time.'']"

definition fallback_recommendation :: string where
  "fallback_recommendation = ''Thank you for your feedback! We're always looking to improve.''"

text \<open>
  \<open>random.choice(seq)\<close> returns \<open>seq[i]\<close> for an index \<open>i\<close> below \<open>len(seq)\<close> that the
  generator draws, and advances the generator. The generator is a parameter: a state of
  any type \<open>'g\<close> and a function that, given the state and a bound, yields a number and the
  next state. The number is reduced modulo the bound, so every function is a generator and
  every sequence of draws within the bounds is covered. The pools are fixed and not empty.
\<close>

type_synonym 'g randbelow = "'g \<Rightarrow> nat \<Rightarrow> nat \<times> 'g"

definition choice :: "'g randbelow \<Rightarrow> 'g \<Rightarrow> 'a list \<Rightarrow> 'a \<times> 'g" where
  "choice rnd g seq = (case rnd g (length seq) of (i, g') \<Rightarrow> (seq ! (i mod length seq), g'))"

text \<open>\<^verbatim>\<open>any(keyword in content for keyword in keywords)\<close>\<close>

definition any_keyword :: "string list \<Rightarrow> string \<Rightarrow> bool" where
  "any_keyword keywords content = list_ex (\<lambda>keyword. sublist keyword content) keywords"

text \<open>The body of the loop of \<open>generate_simple_recommendations\<close>, for one review.\<close>

definition recommend ::
  "(string \<Rightarrow> string) \<Rightarrow> 'g randbelow \<Rightarrow> 'g \<Rightarrow> string option \<Rightarrow> string \<times> 'g" where
  "recommend lower rnd g review =
     (let content = lower (or_empty review) in
      if any_keyword positive_keywords content then choice rnd g positive_recommendations
      else if any_keyword negative_keywords content then choice rnd g negative_recommendations
      else if any_keyword neutral_keywords content then choice rnd g neutral_recommendations
      else (fallback_recommendation, g))"

fun simple_loop ::
  "(string \<Rightarrow> string) \<Rightarrow> 'g randbelow \<Rightarrow> 'g \<Rightarrow> string option list \<Rightarrow> string list
     \<Rightarrow> string list \<times> 'g" where
  "simple_loop lower rnd g [] selected_recommendations = (selected_recommendations, g)"
| "simple_loop lower rnd g (review # reviews) selected_recommendations =
     (case recommend lower rnd g review of
        (recommendation, g') \<Rightarrow>
          simple_loop lower rnd g' reviews (selected_recommendations @ [recommendation]))"

definition generate_simple_recommendations ::
  "(string \<Rightarrow> string) \<Rightarrow> 'g randbelow \<Rightarrow> 'g \<Rightarrow> string option list \<Rightarrow> string list \<times> 'g" where
  "generate_simple_recommendations lower rnd g reviews = simple_loop lower rnd g reviews []"

section \<open>Sentiment labels and their counts\<close>

text \<open>
  A score is a real number (the value of the float), an absent score is \<open>None\<close>. The
  function \<open>label\<close> is the local function of \<open>generate_charts\<close>.
\<close>

definition label :: "real option \<Rightarrow> string" where
  "label score =
     (case score of
        None \<Rightarrow> ''Neutral''
      | Some s \<Rightarrow>
          if s > 0.05 then ''Positive''
          else if s < - 0.05 then ''Negative''
          else ''Neutral'')"

text \<open>
  \<open>value_counts\<close> maps each value that occurs to the number of its occurrences,
  \<open>reindex\<close> reads the counts at the given keys in the given order (a key that is missing
  has no value), and \<open>fillna\<close> puts a default in the place of the missing values.
\<close>

definition value_counts :: "string list \<Rightarrow> (string \<rightharpoonup> nat)" where
  "value_counts xs = (\<lambda>x. if x \<in> set xs then Some (count_list xs x) else None)"

definition reindex :: "string list \<Rightarrow> (string \<rightharpoonup> nat) \<Rightarrow> (string \<times> nat option) list" where
  "reindex keys m = map (\<lambda>k. (k, m k)) keys"

definition fillna :: "nat \<Rightarrow> (string \<times> nat option) list \<Rightarrow> (string \<times> nat) list" where
  "fillna d xs = map (\<lambda>(k, v). (k, case v of None \<Rightarrow> d | Some n \<Rightarrow> n)) xs"

text \<open>
  \<open>generate_charts\<close>, on the scores of the stored reviews. When there is no review it
  returns \<open>(None, None)\<close> before any label or count is computed: the value \<open>None\<close>.
  Otherwise it computes \<open>counts\<close>, draws them on the two charts and returns the two file
  names, which are constants: the value is \<open>Some counts\<close>.
\<close>

definition generate_charts :: "real option list \<Rightarrow> (string \<times> nat) list option" where
  "generate_charts scores =
     (if scores = [] then None
      else
        let labels = map label scores;
            counts = fillna 0
              (reindex [''Positive'', ''Neutral'', ''Negative''] (value_counts labels))
        in Some counts)"


section \<open>Recommendations from association rules\<close>

datatype py_error = IndexError | KeyError | ValueError

text \<open>
  One row of the frame of sentiments: the dictionary that the analyzer returns for one
  review. One row of the frame of frequent itemsets, and one row of the frame of rules
  (with the columns the code reads). The frozen sets of a rule are lists, in the order in
  which \<open>list(...)\<close> enumerates them.
\<close>

record polarity =
  neg :: real
  neu :: real
  pos :: real
  compound :: real

record itemset_row =
  fi_support :: real
  itemsets :: "string list"

record rule =
  antecedents :: "string list"
  consequents :: "string list"
  support :: real
  confidence :: real
  lift :: real

text \<open>The dictionary appended for one recommendation; a field for each key.\<close>

record recommendation =
  rec_rule :: string
  rec_recommended_products :: string
  rec_support :: real
  rec_confidence :: real
  rec_lift :: real
  rec_sentiment :: string

text \<open>\<open>sep.join(xs)\<close>\<close>

fun join :: "string \<Rightarrow> string list \<Rightarrow> string" where
  "join sep [] = []"
| "join sep [x] = x"
| "join sep (x # y # ys) = x @ sep @ join sep (y # ys)"

text \<open>
  \<open>round(x, 3)\<close> on the real value of the float: the nearest multiple of a thousandth,
  and the even one when two are equally near.
\<close>

definition round3 :: "real \<Rightarrow> real" where
  "round3 x =
     (let y = x * 1000; f = \<lfloor>y\<rfloor>; d = y - of_int f in
      of_int (if d < 1 / 2 then f else if d > 1 / 2 then f + 1
              else if even f then f else f + 1) / 1000)"

text \<open>
  \<open>frame.iloc[i]\<close>: the row at position \<open>i\<close>, a negative position counting from the end,
  and \<open>IndexError\<close> outside the frame.
\<close>

definition iloc :: "'a list \<Rightarrow> int \<Rightarrow> py_error + 'a" where
  "iloc frame i =
     (if 0 \<le> i \<and> i < int (length frame) then Inr (frame ! nat i)
      else if i < 0 \<and> - int (length frame) \<le> i then Inr (frame ! nat (int (length frame) + i))
      else Inl IndexError)"

text \<open>The two branches that build the dictionary of a recommendation.\<close>

definition recommendation_of :: "bool \<Rightarrow> rule \<Rightarrow> recommendation" where
  "recommendation_of positive_review r =
     (if positive_review then
        \<lparr>rec_rule = join '', '' (antecedents r) @ '' -> '' @ join '', '' (consequents r),
         rec_recommended_products = join '', '' (consequents r),
         rec_support = round3 (support r),
         rec_confidence = round3 (confidence r),
         rec_lift = round3 (lift r),
         rec_sentiment = ''Positive''\<rparr>
      else
        \<lparr>rec_rule = join '', '' (antecedents r) @ '' -> '' @ join '', '' (consequents r),
         rec_recommended_products = ''Consider improving '' @ join '', '' (consequents r),
         rec_support = round3 (support r),
         rec_confidence = round3 (confidence r),
         rec_lift = round3 (lift r),
         rec_sentiment = ''Negative''\<rparr>)"

text \<open>\<^verbatim>\<open>all(product in row for product in antecedents)\<close>\<close>

definition rule_applies :: "string list \<Rightarrow> rule \<Rightarrow> bool" where
  "rule_applies row r = list_all (\<lambda>product. product \<in> set row) (antecedents r)"

text \<open>The inner loop, over the rules, for one transaction.\<close>

fun rules_loop ::
  "string list \<Rightarrow> bool \<Rightarrow> rule list \<Rightarrow> recommendation list \<Rightarrow> recommendation list" where
  "rules_loop row positive_review [] recommendations = recommendations"
| "rules_loop row positive_review (r # rules) recommendations =
     (if rule_applies row r
      then rules_loop row positive_review rules
             (recommendations @ [recommendation_of positive_review r])
      else rules_loop row positive_review rules recommendations)"

text \<open>
  The outer loop, \<open>for idx, row in enumerate(transactions)\<close>: \<open>idx\<close> counts all rows,
  also the empty ones that are skipped.
\<close>

fun transactions_loop ::
  "rule list \<Rightarrow> polarity list \<Rightarrow> nat \<Rightarrow> string list list \<Rightarrow> recommendation list
     \<Rightarrow> py_error + recommendation list" where
  "transactions_loop rules sentiments idx [] recommendations = Inr recommendations"
| "transactions_loop rules sentiments idx (row # rows) recommendations =
     (if length row = 0 then transactions_loop rules sentiments (idx + 1) rows recommendations
      else
        case iloc sentiments (min (int idx) (int (length sentiments) - 1)) of
          Inl e \<Rightarrow> Inl e
        | Inr sentiment \<Rightarrow>
            (let positive_review = compound sentiment > 0.05 in
             transactions_loop rules sentiments (idx + 1) rows
               (rules_loop row positive_review rules recommendations)))"

text \<open>
  The one-hot table of the transactions has a row for each transaction with at least one
  item (stacking drops the padding of the shorter rows, and with it a row that is all
  padding) and a column for each item; its rows are kept here as the lists of their items.
\<close>

definition basket :: "string list list \<Rightarrow> string list list" where
  "basket transactions = filter (\<lambda>row. row \<noteq> []) transactions"

text \<open>
  \<open>generate_recommendations\<close>. The two calls into the mining library are parameters:
  \<open>apriori\<close> takes the table and the minimum support, \<open>association_rules\<close> the frequent
  itemsets and the minimum lift, and each returns its frame or raises.
\<close>

type_synonym miner = "string list list \<Rightarrow> real \<Rightarrow> py_error + itemset_row list"
type_synonym deriver = "itemset_row list \<Rightarrow> real \<Rightarrow> py_error + rule list"

definition generate_recommendations ::
  "miner \<Rightarrow> deriver \<Rightarrow> string list list \<Rightarrow> polarity list \<Rightarrow> py_error + recommendation list" where
  "generate_recommendations apriori_fn association_rules_fn transactions sentiments =
     (if transactions = [] then Inr []
      else
        case apriori_fn (basket transactions) (1 / 10) of
          Inl e \<Rightarrow> Inl e
        | Inr frequent_itemsets \<Rightarrow>
            (if frequent_itemsets = [] then Inr []
             else
               (case association_rules_fn frequent_itemsets 1 of
                  Inl e \<Rightarrow> Inl e
                | Inr rules \<Rightarrow> transactions_loop rules sentiments 0 transactions [])))"

text \<open>
  The lines of the route \<open>get_recommendations\<close> that feed the composer, which the route
  reaches when there is at least one review: the sentiments of all reviews, in their
  order, and the transactions of the reviews that have one. The analyzer is a parameter,
  \<open>polarity_scores\<close>.
\<close>

definition analyze_sentiments :: "(string \<Rightarrow> polarity) \<Rightarrow> string list \<Rightarrow> polarity list" where
  "analyze_sentiments polarity_scores reviews = map polarity_scores reviews"

definition product_recommendations ::
  "(string \<Rightarrow> string) \<Rightarrow> (string \<Rightarrow> polarity) \<Rightarrow> miner \<Rightarrow> deriver \<Rightarrow> string list
     \<Rightarrow> py_error + recommendation list" where
  "product_recommendations lower polarity_scores apriori_fn association_rules_fn reviews =
     (let sentiments = analyze_sentiments polarity_scores reviews;
          transactions = extract_products_from_reviews lower (map Some reviews)
      in generate_recommendations apriori_fn association_rules_fn transactions sentiments)"

text \<open>
  The position, in the sequence of reviews, of the review that each transaction was
  derived from: the positions of the reviews with at least one tag, in order.
\<close>

definition origins :: "(string \<Rightarrow> string) \<Rightarrow> string list \<Rightarrow> nat list" where
  "origins lower reviews =
     filter (\<lambda>j. tags_in lower (Some (reviews ! j)) \<noteq> {}) [0..<length reviews]"

text \<open>
  The pairs of a transaction, given by its position, and a rule whose antecedent is
  contained in the items of that transaction, in the order of the two loops. A
  transaction with no item is skipped and has no pair.
\<close>

definition matching_pairs :: "rule list \<Rightarrow> string list list \<Rightarrow> (nat \<times> rule) list" where
  "matching_pairs rules transactions =
     concat (map (\<lambda>(idx, row).
       map (\<lambda>r. (idx, r)) (filter (\<lambda>r. row \<noteq> [] \<and> set (antecedents r) \<subseteq> set row) rules))
       (List.enumerate 0 transactions))"

section \<open>The miner\<close>

text \<open>
  Modelled from the spec: the mining library (\<open>apriori\<close> and \<open>association_rules\<close> of
  mlxtend) is not part of the sources. The support of an itemset is the fraction of the
  transactions that contain it as a subset.
\<close>

definition support_of :: "string list list \<Rightarrow> string list \<Rightarrow> real" where
  "support_of rows s =
     real (length (filter (\<lambda>row. set s \<subseteq> set row) rows)) / real (length rows)"

text \<open>
  Modelled from the spec: the itemsets over the items of the transactions, each as the
  sorted list of its items; the empty itemset is not one of them.
\<close>

definition all_itemsets :: "string list list \<Rightarrow> string list list" where
  "all_itemsets rows = filter (\<lambda>s. s \<noteq> []) (subseqs (sort (remdups (concat rows))))"

text \<open>
  Modelled from the spec: the frequent itemsets are the itemsets whose support is at least
  the threshold, each with its support.
\<close>

definition apriori :: "string list list \<Rightarrow> real \<Rightarrow> itemset_row list" where
  "apriori rows min_support =
     map (\<lambda>s. \<lparr>fi_support = support_of rows s, itemsets = s\<rparr>)
       (filter (\<lambda>s. support_of rows s \<ge> min_support) (all_itemsets rows))"

text \<open>
  Modelled from the spec: the support that the frame of frequent itemsets records for a
  set of items, if it records one.
\<close>

definition recorded_support :: "itemset_row list \<Rightarrow> string list \<Rightarrow> real option" where
  "recorded_support frequent_itemsets s =
     map_option fi_support (find (\<lambda>row. set (itemsets row) = set s) frequent_itemsets)"

text \<open>
  Modelled from the spec: the rules of one frequent itemset split it into an antecedent
  and a consequent, both not empty; the support of the rule is the support of the itemset,
  its confidence is that support divided by the support of the antecedent, and its lift is
  the confidence divided by the support of the consequent.
\<close>

definition rules_of_itemset :: "itemset_row list \<Rightarrow> itemset_row \<Rightarrow> rule list" where
  "rules_of_itemset frequent_itemsets row =
     concat (map (\<lambda>a.
       let c = filter (\<lambda>x. x \<notin> set a) (itemsets row) in
       if a = [] \<or> c = [] then []
       else
         case (recorded_support frequent_itemsets a, recorded_support frequent_itemsets c) of
           (Some sa, Some sc) \<Rightarrow>
             [\<lparr>antecedents = a, consequents = c, support = fi_support row,
               confidence = fi_support row / sa, lift = fi_support row / sa / sc\<rparr>]
         | _ \<Rightarrow> [])
       (subseqs (itemsets row)))"

text \<open>
  Modelled from the spec: the rules of all frequent itemsets whose lift is at least the
  threshold.
\<close>

definition association_rules :: "itemset_row list \<Rightarrow> real \<Rightarrow> rule list" where
  "association_rules frequent_itemsets min_threshold =
     filter (\<lambda>r. lift r \<ge> min_threshold)
       (concat (map (rules_of_itemset frequent_itemsets) frequent_itemsets))"


text \<open>
  Modelled from the spec: the two library calls as the specification describes them, each
  returning its result and never raising.
\<close>

definition spec_apriori :: miner where
  "spec_apriori rows min_support = Inr (apriori rows min_support)"

definition spec_association_rules :: deriver where
  "spec_association_rules frequent_itemsets min_threshold =
     Inr (association_rules frequent_itemsets min_threshold)"

section \<open>Example data\<close>

text \<open>
  Two reviews, and an analyzer that finds the first one negative and the second one
  positive. The first review names no product. The texts of the examples are ASCII, so
  that \<open>str.lower\<close> is \<open>ascii_lower\<close> on them.
\<close>

definition example_reviews :: "string list" where
  "example_reviews = [''terrible service'', ''love the pizza and fries'']"

definition example_polarity :: "string \<Rightarrow> polarity" where
  "example_polarity review =
     (if review = ''terrible service''
      then \<lparr>neg = 0.756, neu = 0.244, pos = 0, compound = - 0.4767\<rparr>
      else if review = ''love the pizza and fries''
      then \<lparr>neg = 0, neu = 0.488, pos = 0.512, compound = 0.6369\<rparr>
      else \<lparr>neg = 0, neu = 1, pos = 0, compound = 0\<rparr>)"

text \<open>Eleven transactions of one product each, all different.\<close>

definition single_product_transactions :: "string list list" where
  "single_product_transactions = map (\<lambda>p. [p]) (take 11 product_list)"

section \<open>Properties of the extractor\<close>

lemma sort_enumeration:
  fixes xs ys :: "string list"
  assumes "set ys = set xs" and "distinct ys"
  shows "sort ys = sorted_set xs"
proof -
  have "sort ys = sorted_list_of_set (set ys)"
    using assms(2) by (simp add: sorted_list_of_set_sort_remdups distinct_remdups_id)
  also have "\<dots> = sorted_list_of_set (set xs)"
    using assms(1) by simp
  also have "\<dots> = sorted_set xs"
    by (simp add: sorted_set_def sorted_list_of_set_sort_remdups)
  finally show ?thesis .
qed

lemma set_products_found:
  "set (products_found lower review) =
     {p \<in> set product_list. sublist p (lower (or_empty review))}"
  by (simp add: products_found_def)

lemma set_sorted_set: "set (sorted_set xs) = set xs"
  by (simp add: sorted_set_def)

lemma sorted_set_Nil_iff: "sorted_set xs = [] \<longleftrightarrow> xs = []"
proof -
  have "sorted_set xs = [] \<longleftrightarrow> set (sorted_set xs) = {}"
    by simp
  then show ?thesis
    by (simp add: set_sorted_set)
qed

lemma extract_loop_acc:
  "extract_loop lower reviews acc =
     acc @ filter (\<lambda>t. t \<noteq> []) (map (\<lambda>r. sorted_set (products_found lower r)) reviews)"
  by (induction reviews arbitrary: acc) (simp_all add: Let_def sorted_set_Nil_iff)

lemma extract_filter_map:
  "extract_products_from_reviews lower reviews =
     filter (\<lambda>t. t \<noteq> []) (map (\<lambda>r. sorted_set (products_found lower r)) reviews)"
  by (simp add: extract_products_from_reviews_def extract_loop_acc)

lemma products_found_cong:
  "lower (or_empty r1) = lower' (or_empty r2) \<Longrightarrow> products_found lower r1 = products_found lower' r2"
  by (simp add: products_found_def)

lemma extract_cong:
  assumes "\<forall>r \<in> set reviews. lower (or_empty r) = lower' (or_empty r)"
  shows "extract_products_from_reviews lower reviews = extract_products_from_reviews lower' reviews"
proof -
  have "map (\<lambda>r. sorted_set (products_found lower r)) reviews =
      map (\<lambda>r. sorted_set (products_found lower' r)) reviews"
    using assms by (simp add: products_found_def)
  then show ?thesis
    unfolding extract_filter_map by (rule arg_cong)
qed

lemma tags_in_products_found: "tags_in lower review = set (products_found lower review)"
  by (simp add: tags_in_def set_products_found)

lemma finite_tags_in: "finite (tags_in lower review)"
  by (simp add: tags_in_def)

lemma sorted_set_products_found:
  "sorted_set (products_found lower review) = sorted_list_of_set (tags_in lower review)"
  by (simp add: sorted_set_def sorted_list_of_set_sort_remdups tags_in_products_found)

lemma products_found_Nil_iff: "products_found lower review = [] \<longleftrightarrow> tags_in lower review = {}"
  by (simp add: tags_in_products_found)

lemma extract_tags_in:
  "extract_products_from_reviews lower reviews =
     map (\<lambda>r. sorted_list_of_set (tags_in lower r))
       (filter (\<lambda>r. tags_in lower r \<noteq> {}) reviews)"
  by (induction reviews)
    (simp_all add: extract_filter_map sorted_set_Nil_iff products_found_Nil_iff
      sorted_set_products_found finite_tags_in)

text \<open>Lower-casing the ASCII letters identifies the characters that are the same letter.\<close>

lemma same_letter_lower_char:
  assumes "same_letter a b"
  shows "lower_char a = lower_char b"
proof -
  have up: "lower_char x = y \<and> lower_char y = y"
    if "CHR ''A'' \<le> x" "x \<le> CHR ''Z''" "of_char y = of_char x + (32::nat)" for x y
  proof -
    have "char_of (of_char x + (32::nat)) = char_of (of_char y :: nat)"
      using that(3) by simp
    then have "lower_char x = y"
      using that(1,2) by (simp add: lower_char_def)
    moreover have "\<not> y \<le> CHR ''Z''"
      using that by (simp add: less_eq_char_def)
    then have "lower_char y = y"
      by (simp add: lower_char_def)
    ultimately show ?thesis by simp
  qed
  from assms consider "a = b"
    | "CHR ''A'' \<le> a" "a \<le> CHR ''Z''" "of_char b = of_char a + (32::nat)"
    | "CHR ''A'' \<le> b" "b \<le> CHR ''Z''" "of_char a = of_char b + (32::nat)"
    by (auto simp: same_letter_def)
  then show ?thesis
  proof cases
    case 1
    then show ?thesis by simp
  next
    case 2
    from up [OF this] show ?thesis by simp
  next
    case 3
    from up [OF this] show ?thesis by simp
  qed
qed

lemma differ_in_case_only_ascii_lower:
  "differ_in_case_only s t \<Longrightarrow> ascii_lower s = ascii_lower t"
  unfolding differ_in_case_only_def ascii_lower_def
  by (induction rule: list_all2_induct) (simp_all add: same_letter_lower_char)


lemma extract_ascii:
  assumes "\<forall>t. ascii t \<longrightarrow> lower t = ascii_lower t"
    and "\<forall>r \<in> set reviews. ascii (or_empty r)"
  shows "extract_products_from_reviews lower reviews =
           extract_products_from_reviews ascii_lower reviews"
  using assms by (intro extract_cong) simp

text \<open>
  A text outside ASCII: the letters \<open>DRIN\<close> followed by the Kelvin sign (U+212A), which
  \<open>str.lower\<close> maps to \<open>k\<close>. For a \<open>lower\<close> that does so, the extractor finds the tag
  \<open>drink\<close>.
\<close>

lemma extract_kelvin_sign:
  assumes "lower (''DRIN'' @ [CHR 0xE2, CHR 0x84, CHR 0xAA]) = ''drink''"
  shows "extract_products_from_reviews lower [Some (''DRIN'' @ [CHR 0xE2, CHR 0x84, CHR 0xAA])] =
           [[''drink'']]"
proof -
  have "extract_products_from_reviews lower [Some (''DRIN'' @ [CHR 0xE2, CHR 0x84, CHR 0xAA])] =
      extract_products_from_reviews (\<lambda>t. ''drink'') [Some (''DRIN'' @ [CHR 0xE2, CHR 0x84, CHR 0xAA])]"
    using assms by (intro extract_cong) (simp add: or_empty_def)
  also have "\<dots> = [[''drink'']]"
    by code_simp
  finally show ?thesis .
qed



text \<open>
  Claim C7. The transactions are, in the order of the texts, the sorted tag lists of the
  texts that match at least one tag of the vocabulary; a text that matches none has no
  transaction. So there are as many transactions as texts with a tag. In the example of
  the specification, of the texts \<open>no tags here\<close> and \<open>love the pizza\<close> only the second
  has a tag, and the one transaction is \<open>pizza\<close>.
\<close>

theorem C7_transaction_builder:
  "extract_products_from_reviews lower reviews =
     map (\<lambda>r. sorted_list_of_set (tags_in lower r))
       (filter (\<lambda>r. tags_in lower r \<noteq> {}) reviews)
   \<and> length (extract_products_from_reviews lower reviews) =
       length (filter (\<lambda>r. tags_in lower r \<noteq> {}) reviews)
   \<and> ((\<forall>t. ascii t \<longrightarrow> lower t = ascii_lower t) \<longrightarrow>
         extract_products_from_reviews lower [Some ''no tags here'', Some ''love the pizza''] =
           [[''pizza'']])"
proof -
  have "extract_products_from_reviews lower [Some ''no tags here'', Some ''love the pizza''] =
           [[''pizza'']]"
    if l: "\<forall>t. ascii t \<longrightarrow> lower t = ascii_lower t"
  proof -
    have asc: "ascii ''no tags here''" "ascii ''love the pizza''"
      by code_simp+
    have "extract_products_from_reviews lower [Some ''no tags here'', Some ''love the pizza''] =
        extract_products_from_reviews ascii_lower [Some ''no tags here'', Some ''love the pizza'']"
      by (rule extract_ascii [OF l]) (simp add: or_empty_def asc)
    also have "\<dots> = [[''pizza'']]"
      by code_simp
    finally show ?thesis .
  qed
  then show ?thesis
    by (simp add: extract_tags_in)
qed

text \<open>The example, with the lower-casing of ASCII texts.\<close>

theorem C7_transaction_builder_witness:
  "extract_products_from_reviews ascii_lower [Some ''no tags here'', Some ''love the pizza''] =
     [[''pizza'']]
   \<and> length (extract_products_from_reviews ascii_lower
        [Some ''no tags here'', Some ''love the pizza'']) = 1"
proof -
  have l: "\<forall>t. ascii t \<longrightarrow> ascii_lower t = ascii_lower t"
    by simp
  from C7_transaction_builder [of ascii_lower "[Some ''no tags here'', Some ''love the pizza'']"] l
  have "extract_products_from_reviews ascii_lower
      [Some ''no tags here'', Some ''love the pizza''] = [[''pizza'']]"
    by blast
  then show ?thesis by simp
qed

section \<open>Properties of the sentiment counts\<close>

lemma count_list_map_filter:
  "count_list (map f xs) k = length (filter (\<lambda>x. f x = k) xs)"
  by (induction xs) simp_all

lemma filled_count:
  "(case value_counts (map f xs) k of None \<Rightarrow> 0 | Some n \<Rightarrow> n) =
     length (filter (\<lambda>x. f x = k) xs)"
proof (cases "k \<in> set (map f xs)")
  case True
  then show ?thesis
    by (simp add: value_counts_def count_list_map_filter)
next
  case False
  then have "filter (\<lambda>x. f x = k) xs = []"
    by (auto simp: filter_empty_conv)
  with False show ?thesis
    by (simp add: value_counts_def)
qed

lemma generate_charts_counts:
  "scores \<noteq> [] \<Longrightarrow>
   generate_charts scores =
     Some [(''Positive'', length (filter (\<lambda>x. label x = ''Positive'') scores)),
           (''Neutral'', length (filter (\<lambda>x. label x = ''Neutral'') scores)),
           (''Negative'', length (filter (\<lambda>x. label x = ''Negative'') scores))]"
  by (simp add: generate_charts_def fillna_def reindex_def filled_count)

lemma generate_charts_Nil: "generate_charts [] = None"
  by (simp add: generate_charts_def)

lemma label_Positive_iff: "label score = ''Positive'' \<longleftrightarrow> (\<exists>s. score = Some s \<and> s > 0.05)"
  by (cases score) (simp_all add: label_def)

lemma label_Negative_iff: "label score = ''Negative'' \<longleftrightarrow> (\<exists>s. score = Some s \<and> s < - 0.05)"
  by (cases score) (simp_all add: label_def)

lemma label_Neutral_iff:
  "label score = ''Neutral'' \<longleftrightarrow> \<not> (\<exists>s. score = Some s \<and> (s > 0.05 \<or> s < - 0.05))"
  by (cases score) (auto simp: label_def)

text \<open>
  Claim C5 speaks of every collection of scores. For the empty collection the code
  computes no counts: \<open>generate_charts\<close> returns before it labels anything, and does
  not give three counts of zero.
\<close>

theorem C5_no_reviews_counterexample:
  "generate_charts [] = None
   \<and> generate_charts [] \<noteq> Some [(''Positive'', 0), (''Neutral'', 0), (''Negative'', 0)]"
  by (simp add: generate_charts_def)

text \<open>
  Claim C5, amended. A score is labelled \<open>Positive\<close> exactly when it is present and
  greater than 0.05, \<open>Negative\<close> exactly when it is present and less than -0.05, and
  \<open>Neutral\<close> in every other case, also when it is absent. For every collection of scores
  that is not empty, the counts are given for the three labels in the order \<open>Positive\<close>,
  \<open>Neutral\<close>, \<open>Negative\<close>; each is the number of scores with that label, which is zero
  for a label that does not occur. For the empty collection there are no counts.
\<close>

theorem C5_sentiment_aggregator:
  "(label score = ''Positive'' \<longleftrightarrow> (\<exists>s. score = Some s \<and> s > 0.05))
   \<and> (label score = ''Negative'' \<longleftrightarrow> (\<exists>s. score = Some s \<and> s < - 0.05))
   \<and> (label score = ''Neutral'' \<longleftrightarrow> \<not> (\<exists>s. score = Some s \<and> (s > 0.05 \<or> s < - 0.05)))
   \<and> label None = ''Neutral''
   \<and> (scores \<noteq> [] \<longrightarrow>
        generate_charts scores =
          Some [(''Positive'', length (filter (\<lambda>x. label x = ''Positive'') scores)),
                (''Neutral'', length (filter (\<lambda>x. label x = ''Neutral'') scores)),
                (''Negative'', length (filter (\<lambda>x. label x = ''Negative'') scores))])
   \<and> (scores = [] \<longrightarrow> generate_charts scores = None)"
proof -
  have "label None = ''Neutral''"
    by (simp add: label_def)
  then show ?thesis
    using label_Positive_iff [of score] label_Negative_iff [of score] label_Neutral_iff [of score]
      generate_charts_counts [of scores] generate_charts_Nil
    by blast
qed

text \<open>
  The example of the specification: the scores 0.5, -0.5, absent and 0.0 give one
  \<open>Positive\<close>, one \<open>Negative\<close> and two \<open>Neutral\<close>.
\<close>

theorem C5_sentiment_aggregator_witness:
  "[Some 0.5, Some (- 0.5), None, Some (0::real)] \<noteq> []
   \<and> generate_charts [Some 0.5, Some (- 0.5), None, Some 0] =
       Some [(''Positive'', 1), (''Neutral'', 2), (''Negative'', 1)]
   \<and> label (Some 0.5) = ''Positive'' \<and> label (Some (- 0.5)) = ''Negative''
   \<and> label (Some 0) = ''Neutral''"
proof -
  have l: "label (Some 0.5) = ''Positive''" "label (Some (- 0.5)) = ''Negative''"
    "label (Some 0) = ''Neutral''" "label None = ''Neutral''"
    by (simp_all add: label_def)
  have "generate_charts [Some 0.5, Some (- 0.5), None, Some 0] =
     Some [(''Positive'', 1), (''Neutral'', 2), (''Negative'', 1)]"
    using C5_sentiment_aggregator [of None "[Some 0.5, Some (- 0.5), None, Some 0]"] l by simp
  with l show ?thesis by simp
qed

section \<open>Properties of the keyword-based recommendations\<close>

lemma choice_mem: "seq \<noteq> [] \<Longrightarrow> fst (choice rnd g seq) \<in> set seq"
  by (simp add: choice_def split: prod.split)

lemma pools_nonempty:
  "positive_recommendations \<noteq> []" "negative_recommendations \<noteq> []"
  "neutral_recommendations \<noteq> []"
  by (simp_all add: positive_recommendations_def negative_recommendations_def
      neutral_recommendations_def)

lemma any_keyword_iff: "any_keyword keywords content \<longleftrightarrow> (\<exists>k \<in> set keywords. sublist k content)"
  by (simp add: any_keyword_def list_ex_iff)

lemma recommend_positive:
  "any_keyword positive_keywords (lower (or_empty review)) \<Longrightarrow>
     fst (recommend lower rnd g review) \<in> set positive_recommendations"
  by (simp add: recommend_def choice_mem pools_nonempty)

lemma recommend_negative:
  "\<not> any_keyword positive_keywords (lower (or_empty review)) \<Longrightarrow>
   any_keyword negative_keywords (lower (or_empty review)) \<Longrightarrow>
     fst (recommend lower rnd g review) \<in> set negative_recommendations"
  by (simp add: recommend_def choice_mem pools_nonempty)

lemma recommend_neutral:
  "\<not> any_keyword positive_keywords (lower (or_empty review)) \<Longrightarrow>
   \<not> any_keyword negative_keywords (lower (or_empty review)) \<Longrightarrow>
   any_keyword neutral_keywords (lower (or_empty review)) \<Longrightarrow>
     fst (recommend lower rnd g review) \<in> set neutral_recommendations"
  by (simp add: recommend_def choice_mem pools_nonempty)

lemma recommend_fallback:
  "\<not> any_keyword positive_keywords (lower (or_empty review)) \<Longrightarrow>
   \<not> any_keyword negative_keywords (lower (or_empty review)) \<Longrightarrow>
   \<not> any_keyword neutral_keywords (lower (or_empty review)) \<Longrightarrow>
     fst (recommend lower rnd g review) = fallback_recommendation"
  by (simp add: recommend_def)

lemma simple_loop_outputs:
  "\<exists>outs. fst (simple_loop lower rnd g reviews acc) = acc @ outs
     \<and> list_all2 (\<lambda>r out. \<exists>g0. out = fst (recommend lower rnd g0 r)) reviews outs"
proof (induction reviews arbitrary: g acc)
  case Nil
  then show ?case by simp
next
  case (Cons review reviews)
  obtain recommendation g' where step: "recommend lower rnd g review = (recommendation, g')"
    by (cases "recommend lower rnd g review")
  from Cons.IH [of g' "acc @ [recommendation]"] obtain outs where
    outs: "fst (simple_loop lower rnd g' reviews (acc @ [recommendation])) = (acc @ [recommendation]) @ outs"
      "list_all2 (\<lambda>r out. \<exists>g0. out = fst (recommend lower rnd g0 r)) reviews outs"
    by blast
  have "recommendation = fst (recommend lower rnd g review)"
    using step by simp
  then have "list_all2 (\<lambda>r out. \<exists>g0. out = fst (recommend lower rnd g0 r))
      (review # reviews) (recommendation # outs)"
    using outs(2) by auto
  moreover have "fst (simple_loop lower rnd g (review # reviews) acc) = acc @ recommendation # outs"
    using step outs(1) by simp
  ultimately show ?case by blast
qed

lemma generate_simple_nth:
  assumes "i < length reviews"
  shows "length (fst (generate_simple_recommendations lower rnd g reviews)) = length reviews"
    and "\<exists>g0. fst (generate_simple_recommendations lower rnd g reviews) ! i =
           fst (recommend lower rnd g0 (reviews ! i))"
proof -
  obtain outs where outs: "fst (generate_simple_recommendations lower rnd g reviews) = outs"
      "list_all2 (\<lambda>r out. \<exists>g0. out = fst (recommend lower rnd g0 r)) reviews outs"
    using simple_loop_outputs [of lower rnd g reviews "[]"]
    by (auto simp: generate_simple_recommendations_def)
  show "length (fst (generate_simple_recommendations lower rnd g reviews)) = length reviews"
    using outs by (simp add: list_all2_lengthD)
  show "\<exists>g0. fst (generate_simple_recommendations lower rnd g reviews) ! i =
           fst (recommend lower rnd g0 (reviews ! i))"
    using outs assms by (simp add: list_all2_conv_all_nth)
qed

lemma generate_simple_length:
  "length (fst (generate_simple_recommendations lower rnd g reviews)) = length reviews"
  using simple_loop_outputs [of lower rnd g reviews "[]"]
  by (auto simp: generate_simple_recommendations_def dest: list_all2_lengthD)

text \<open>
  A text outside ASCII: \<open>LI\<close>, the Kelvin sign (U+212A) and \<open>E it\<close>, which
  \<open>str.lower\<close> maps to \<open>like it\<close>. For a \<open>lower\<close> that does so, the review gets a
  positive template.
\<close>

lemma recommend_kelvin_sign:
  assumes "lower (''LI'' @ [CHR 0xE2, CHR 0x84, CHR 0xAA] @ ''E it'') = ''like it''"
  shows "fst (recommend lower rnd g (Some (''LI'' @ [CHR 0xE2, CHR 0x84, CHR 0xAA] @ ''E it'')))
           \<in> set positive_recommendations"
proof -
  have "any_keyword positive_keywords ''like it''"
    by code_simp
  with assms show ?thesis
    by (intro recommend_positive) (simp add: or_empty_def)
qed

lemma sublist_ascii_lower: "sublist w t \<Longrightarrow> sublist (ascii_lower w) (ascii_lower t)"
proof -
  assume "sublist w t"
  then obtain ps ss where "t = ps @ w @ ss"
    by (auto simp: sublist_def)
  then have "ascii_lower t = ascii_lower ps @ ascii_lower w @ ascii_lower ss"
    by (simp add: ascii_lower_def)
  then show ?thesis
    by (auto simp: sublist_def)
qed

lemma amazing_in_any_case:
  assumes "\<forall>t. ascii t \<longrightarrow> lower t = ascii_lower t" and "ascii t"
    and "differ_in_case_only w ''amazing''" and "sublist w t"
  shows "sublist ''amazing'' (lower t)"
proof -
  have "ascii_lower ''amazing'' = ''amazing''"
    by code_simp
  with differ_in_case_only_ascii_lower [OF assms(3)] have "ascii_lower w = ''amazing''"
    by simp
  with sublist_ascii_lower [OF assms(4)] have "sublist ''amazing'' (ascii_lower t)"
    by simp
  with assms(1,2) show ?thesis
    by simp
qed

text \<open>
  Claim C8. The result has one string for each review, in order. The string for a review
  is taken from the pool of the first class whose keywords match the lower-cased text,
  the positive keywords being tried before the negative ones and these before the neutral
  ones: a text with a positive keyword gets one of the five positive templates whatever
  else it contains, so a text whose lower-cased form contains \<open>amazing\<close> does; a text
  with no keyword of the three lists gets the fixed fallback string. This holds for every
  generator and every state of it, and for every lower-casing function. Since
  \<open>str.lower\<close> lower-cases the ASCII letters of an ASCII text, an ASCII text that contains
  \<open>amazing\<close> with its letters in any case gets a positive template.
\<close>

theorem C8_keyword_composer:
  assumes "i < length reviews"
  shows "let content = lower (or_empty (reviews ! i));
             out = fst (generate_simple_recommendations lower rnd g reviews) ! i;
             positive = (\<exists>k \<in> set positive_keywords. sublist k content);
             negative = (\<exists>k \<in> set negative_keywords. sublist k content);
             neutral = (\<exists>k \<in> set neutral_keywords. sublist k content)
         in length (fst (generate_simple_recommendations lower rnd g reviews)) = length reviews
            \<and> (positive \<longrightarrow> out \<in> set positive_recommendations)
            \<and> (\<not> positive \<and> negative \<longrightarrow> out \<in> set negative_recommendations)
            \<and> (\<not> positive \<and> \<not> negative \<and> neutral \<longrightarrow> out \<in> set neutral_recommendations)
            \<and> (\<not> positive \<and> \<not> negative \<and> \<not> neutral \<longrightarrow> out = fallback_recommendation)
            \<and> (sublist ''amazing'' content \<longrightarrow> out \<in> set positive_recommendations)
            \<and> ((\<forall>t. ascii t \<longrightarrow> lower t = ascii_lower t) \<and> ascii (or_empty (reviews ! i))
                 \<and> differ_in_case_only w ''amazing'' \<and> sublist w (or_empty (reviews ! i)) \<longrightarrow>
                 out \<in> set positive_recommendations)
            \<and> length positive_recommendations = 5"
proof -
  obtain g0 where out: "fst (generate_simple_recommendations lower rnd g reviews) ! i =
      fst (recommend lower rnd g0 (reviews ! i))"
    using generate_simple_nth(2) [OF assms, of lower rnd g] by blast
  have am: "any_keyword positive_keywords content" if "sublist ''amazing'' content" for content
    using that by (auto simp: any_keyword_iff positive_keywords_def)
  have "length positive_recommendations = 5"
    by (simp add: positive_recommendations_def)
  then show ?thesis
    unfolding Let_def out any_keyword_iff [symmetric]
    using recommend_positive [of lower "reviews ! i" rnd g0] recommend_negative [of lower "reviews ! i" rnd g0]
      recommend_neutral [of lower "reviews ! i" rnd g0] recommend_fallback [of lower "reviews ! i" rnd g0]
      generate_simple_length [of lower rnd g reviews] am [of "lower (or_empty (reviews ! i))"]
      amazing_in_any_case [of lower "or_empty (reviews ! i)" w]
    by blast
qed


text \<open>
  With the lower-casing of ASCII texts: a review that contains \<open>AMAZING\<close> gets a
  positive template, and so does one that
  contains both \<open>bad\<close> and \<open>good\<close>; \<open>hate\<close> gives a negative template, \<open>okay\<close> a
  neutral one, and a text without keywords the fallback string.
\<close>

theorem C8_keyword_composer_witness:
  "fst (generate_simple_recommendations ascii_lower (\<lambda>g n. (g, Suc g)) (0::nat)
      [Some ''This is AMAZING'', Some ''bad but good'', Some ''I hate it'',
       Some ''it was okay'', Some ''hm'']) ! 0 \<in> set positive_recommendations
   \<and> fst (generate_simple_recommendations ascii_lower (\<lambda>g n. (g, Suc g)) (0::nat)
      [Some ''This is AMAZING'', Some ''bad but good'', Some ''I hate it'',
       Some ''it was okay'', Some ''hm'']) ! 1 \<in> set positive_recommendations
   \<and> fst (generate_simple_recommendations ascii_lower (\<lambda>g n. (g, Suc g)) (0::nat)
      [Some ''This is AMAZING'', Some ''bad but good'', Some ''I hate it'',
       Some ''it was okay'', Some ''hm'']) ! 2 \<in> set negative_recommendations
   \<and> fst (generate_simple_recommendations ascii_lower (\<lambda>g n. (g, Suc g)) (0::nat)
      [Some ''This is AMAZING'', Some ''bad but good'', Some ''I hate it'',
       Some ''it was okay'', Some ''hm'']) ! 3 \<in> set neutral_recommendations
   \<and> fst (generate_simple_recommendations ascii_lower (\<lambda>g n. (g, Suc g)) (0::nat)
      [Some ''This is AMAZING'', Some ''bad but good'', Some ''I hate it'',
       Some ''it was okay'', Some ''hm'']) ! 4 = fallback_recommendation"
  (is "?out ! 0 \<in> _ \<and> _")
proof -
  let ?rs = "[Some ''This is AMAZING'', Some ''bad but good'', Some ''I hate it'',
       Some ''it was okay'', Some ''hm'']"
  have len: "0 < length ?rs" "1 < length ?rs" "2 < length ?rs" "3 < length ?rs"
    "4 < length ?rs"
    by simp_all
  have l: "\<forall>t. ascii t \<longrightarrow> ascii_lower t = ascii_lower t"
    by simp
  have p0: "ascii (or_empty (?rs ! 0))"
    "differ_in_case_only ''AMAZING'' ''amazing''" "sublist ''AMAZING'' (or_empty (?rs ! 0))"
    by code_simp+
  have p1: "\<exists>k \<in> set positive_keywords. sublist k (ascii_lower (or_empty (?rs ! 1)))"
    by code_simp
  have p2: "\<not> (\<exists>k \<in> set positive_keywords. sublist k (ascii_lower (or_empty (?rs ! 2))))"
    "\<exists>k \<in> set negative_keywords. sublist k (ascii_lower (or_empty (?rs ! 2)))"
    by code_simp+
  have p3: "\<not> (\<exists>k \<in> set positive_keywords. sublist k (ascii_lower (or_empty (?rs ! 3))))"
    "\<not> (\<exists>k \<in> set negative_keywords. sublist k (ascii_lower (or_empty (?rs ! 3))))"
    "\<exists>k \<in> set neutral_keywords. sublist k (ascii_lower (or_empty (?rs ! 3)))"
    by code_simp+
  have p4: "\<not> (\<exists>k \<in> set positive_keywords. sublist k (ascii_lower (or_empty (?rs ! 4))))"
    "\<not> (\<exists>k \<in> set negative_keywords. sublist k (ascii_lower (or_empty (?rs ! 4))))"
    "\<not> (\<exists>k \<in> set neutral_keywords. sublist k (ascii_lower (or_empty (?rs ! 4))))"
    by code_simp+
  have "?out ! 0 \<in> set positive_recommendations"
    using C8_keyword_composer [OF len(1), of ascii_lower "\<lambda>g n. (g, Suc g)" 0 "''AMAZING''", unfolded Let_def] l p0
    by blast
  moreover have "?out ! 1 \<in> set positive_recommendations"
    using C8_keyword_composer [OF len(2), of ascii_lower "\<lambda>g n. (g, Suc g)" 0 "''AMAZING''", unfolded Let_def] p1
    by blast
  moreover have "?out ! 2 \<in> set negative_recommendations"
    using C8_keyword_composer [OF len(3), of ascii_lower "\<lambda>g n. (g, Suc g)" 0 "''AMAZING''", unfolded Let_def] p2
    by blast
  moreover have "?out ! 3 \<in> set neutral_recommendations"
    using C8_keyword_composer [OF len(4), of ascii_lower "\<lambda>g n. (g, Suc g)" 0 "''AMAZING''", unfolded Let_def] p3
    by blast
  moreover have "?out ! 4 = fallback_recommendation"
    using C8_keyword_composer [OF len(5), of ascii_lower "\<lambda>g n. (g, Suc g)" 0 "''AMAZING''", unfolded Let_def] p4
    by blast
  ultimately show ?thesis by blast
qed

lemma tags_in_or_empty: "tags_in lower (Some (or_empty review)) = tags_in lower review"
  by (simp add: tags_in_def or_empty_def)

lemma tags_in_None: "lower [] = [] \<Longrightarrow> tags_in lower None = {}"
  by (auto simp: tags_in_def or_empty_def product_list_def)

lemma recommend_or_empty:
  "recommend lower rnd g (Some (or_empty review)) = recommend lower rnd g review"
  by (simp add: recommend_def or_empty_def)

lemma recommend_None:
  "lower [] = [] \<Longrightarrow> fst (recommend lower rnd g None) = fallback_recommendation"
  by (simp add: recommend_def or_empty_def any_keyword_def positive_keywords_def
      negative_keywords_def neutral_keywords_def)

lemma simple_loop_or_empty:
  "simple_loop lower rnd g (map (\<lambda>r. Some (or_empty r)) reviews) acc =
     simple_loop lower rnd g reviews acc"
  by (induction reviews arbitrary: g acc) (simp_all add: recommend_or_empty)

text \<open>
  Claim C10. An absent review is handled as the empty text by both functions, which are
  total on every sequence of present and absent reviews: replacing each review by its text
  (the empty text for an absent one) changes neither result; the absent reviews add no
  transaction, so that removing them leaves the transactions as they are; the keyword
  composer still returns one string for each review, and the string for an absent review
  is the fallback string. What is used of \<open>str.lower\<close> is that it maps the empty text to
  the empty text.
\<close>

theorem C10_absent_reviews:
  assumes "lower [] = []"
  shows "extract_products_from_reviews lower (map (\<lambda>r. Some (or_empty r)) reviews) =
     extract_products_from_reviews lower reviews
   \<and> extract_products_from_reviews lower (filter (\<lambda>r. r \<noteq> None) reviews) =
       extract_products_from_reviews lower reviews
   \<and> generate_simple_recommendations lower rnd g (map (\<lambda>r. Some (or_empty r)) reviews) =
       generate_simple_recommendations lower rnd g reviews
   \<and> length (fst (generate_simple_recommendations lower rnd g reviews)) = length reviews
   \<and> (\<forall>i < length reviews. reviews ! i = None \<longrightarrow>
         fst (generate_simple_recommendations lower rnd g reviews) ! i = fallback_recommendation)"
proof -
  have a: "extract_products_from_reviews lower (map (\<lambda>r. Some (or_empty r)) reviews) =
     extract_products_from_reviews lower reviews"
    by (simp add: extract_tags_in filter_map comp_def tags_in_or_empty)
  have "filter (\<lambda>r. tags_in lower r \<noteq> {}) (filter (\<lambda>r. r \<noteq> None) reviews) =
      filter (\<lambda>r. tags_in lower r \<noteq> {}) reviews"
    by (induction reviews) (auto simp: tags_in_None [of lower, OF assms])
  then have b: "extract_products_from_reviews lower (filter (\<lambda>r. r \<noteq> None) reviews) =
       extract_products_from_reviews lower reviews"
    by (simp only: extract_tags_in)
  have c: "generate_simple_recommendations lower rnd g (map (\<lambda>r. Some (or_empty r)) reviews) =
       generate_simple_recommendations lower rnd g reviews"
    by (simp add: generate_simple_recommendations_def simple_loop_or_empty)
  have d: "\<forall>i < length reviews. reviews ! i = None \<longrightarrow>
         fst (generate_simple_recommendations lower rnd g reviews) ! i = fallback_recommendation"
  proof (intro allI impI)
    fix i assume i: "i < length reviews" and n: "reviews ! i = None"
    from generate_simple_nth(2) [OF i, of lower rnd g] n
    show "fst (generate_simple_recommendations lower rnd g reviews) ! i = fallback_recommendation"
      by (auto simp: recommend_None [of lower, OF assms])
  qed
  from a b c d generate_simple_length [of lower rnd g reviews] show ?thesis by blast
qed

text \<open>
  With one review present and one absent, and the lower-casing of ASCII texts: the only
  transaction is that of the first, and the second string of the keyword composer is the
  fallback string.
\<close>

theorem C10_absent_reviews_witness:
  "ascii_lower [] = []
   \<and> extract_products_from_reviews ascii_lower [Some ''love the pizza'', None] = [[''pizza'']]
   \<and> fst (generate_simple_recommendations ascii_lower (\<lambda>g n. (g, Suc g)) (0::nat)
        [Some ''love the pizza'', None]) ! 1 = fallback_recommendation"
proof -
  have h: "ascii_lower [] = []"
    by (simp add: ascii_lower_def)
  have e: "extract_products_from_reviews ascii_lower [Some ''love the pizza''] = [[''pizza'']]"
    by code_simp
  have f: "filter (\<lambda>r. r \<noteq> None) [Some ''love the pizza'', None] = [Some ''love the pizza'']"
    by simp
  note inst = C10_absent_reviews [of ascii_lower "[Some ''love the pizza'', None]"
      "\<lambda>g n. (g, Suc g)" "0::nat", OF h]
  from inst have "extract_products_from_reviews ascii_lower
        (filter (\<lambda>r. r \<noteq> None) [Some ''love the pizza'', None]) =
       extract_products_from_reviews ascii_lower [Some ''love the pizza'', None]"
    by blast
  with e f have "extract_products_from_reviews ascii_lower [Some ''love the pizza'', None] =
      [[''pizza'']]"
    by simp
  moreover from inst
  have "fst (generate_simple_recommendations ascii_lower (\<lambda>g n. (g, Suc g)) (0::nat)
        [Some ''love the pizza'', None]) ! 1 = fallback_recommendation"
    by simp
  ultimately show ?thesis using h by blast
qed

section \<open>Properties of the recommendations from rules\<close>

lemma rules_loop_append:
  "rules_loop row b rules acc = acc @ map (recommendation_of b) (filter (rule_applies row) rules)"
  by (induction rules arbitrary: acc) simp_all

lemma iloc_clamped:
  assumes "sentiments \<noteq> []"
  shows "iloc sentiments (min (int idx) (int (length sentiments) - 1)) =
           Inr (sentiments ! min idx (length sentiments - 1))"
proof -
  have pos: "0 < length sentiments"
    using assms by simp
  have eq: "min (int idx) (int (length sentiments) - 1) = int (min idx (length sentiments - 1))"
    using assms by (cases sentiments) (simp_all add: min_def)
  have "min idx (length sentiments - 1) < length sentiments"
    using pos by arith
  then show ?thesis
    unfolding eq by (simp add: iloc_def)
qed

lemma iloc_Nil: "iloc [] i = Inl IndexError"
  by (simp add: iloc_def)

lemma transactions_loop_Inr:
  "transactions_loop rules sentiments idx rows acc = Inr recs \<Longrightarrow>
     recs = acc @ concat (map (\<lambda>(i, row).
       if row = [] then []
       else map (recommendation_of (compound (sentiments ! min i (length sentiments - 1)) > 0.05))
              (filter (rule_applies row) rules)) (List.enumerate idx rows))"
proof (induction rows arbitrary: idx acc)
  case Nil
  then show ?case by simp
next
  case (Cons row rows)
  show ?case
  proof (cases "row = []")
    case True
    with Cons.prems have "transactions_loop rules sentiments (Suc idx) rows acc = Inr recs"
      by simp
    from Cons.IH [OF this] True show ?thesis
      by simp
  next
    case False
    show ?thesis
    proof (cases "sentiments = []")
      case True
      with False Cons.prems show ?thesis
        by (simp add: iloc_Nil)
    next
      case ne: False
      let ?b = "compound (sentiments ! min idx (length sentiments - 1)) > 0.05"
      from False ne Cons.prems
      have "transactions_loop rules sentiments (Suc idx) rows (rules_loop row ?b rules acc) = Inr recs"
        by (simp add: iloc_clamped Let_def)
      from Cons.IH [OF this] False show ?thesis
        by (simp add: rules_loop_append)
    qed
  qed
qed

lemma generate_recommendations_Inr:
  assumes "generate_recommendations apriori_fn association_rules_fn transactions sentiments = Inr recs"
  shows "recs = [] \<or>
     (\<exists>frequent_itemsets rules.
        apriori_fn (basket transactions) (1 / 10) = Inr frequent_itemsets
      \<and> frequent_itemsets \<noteq> []
      \<and> association_rules_fn frequent_itemsets 1 = Inr rules
      \<and> transactions_loop rules sentiments 0 transactions [] = Inr recs)"
  using assms
  by (auto simp: generate_recommendations_def split: if_splits sum.splits)

lemma rule_applies_subset: "rule_applies row r \<longleftrightarrow> set (antecedents r) \<subseteq> set row"
  by (auto simp: rule_applies_def list_all_iff)

lemma rule_applies_fun: "rule_applies row = (\<lambda>r. set (antecedents r) \<subseteq> set row)"
  by (rule ext) (rule rule_applies_subset)

lemma recommendation_of_fields:
  "rec_sentiment (recommendation_of b r) = (if b then ''Positive'' else ''Negative'')"
  "rec_recommended_products (recommendation_of b r) =
     (if b then join '', '' (consequents r) else ''Consider improving '' @ join '', '' (consequents r))"
  by (simp_all add: recommendation_of_def)

lemma transactions_loop_mem:
  assumes "transactions_loop rules sentiments 0 transactions [] = Inr recs" and "rec \<in> set recs"
  shows "\<exists>idx < length transactions. \<exists>r \<in> set rules.
           transactions ! idx \<noteq> [] \<and> rule_applies (transactions ! idx) r
         \<and> rec = recommendation_of
                   (compound (sentiments ! min idx (length sentiments - 1)) > 0.05) r"
proof -
  from transactions_loop_Inr [OF assms(1)] assms(2)
  obtain i row where ir: "(i, row) \<in> set (List.enumerate 0 transactions)"
    and m: "rec \<in> set (if row = [] then []
       else map (recommendation_of (compound (sentiments ! min i (length sentiments - 1)) > 0.05))
              (filter (rule_applies row) rules))"
    by auto
  from ir have "i < length transactions" "row = transactions ! i"
    by (simp_all add: in_set_enumerate_eq)
  with m show ?thesis
    by (cases "row = []") auto
qed

lemma matching_pairs_iff:
  "(idx, r) \<in> set (matching_pairs rules transactions) \<longleftrightarrow>
     idx < length transactions \<and> transactions ! idx \<noteq> [] \<and> r \<in> set rules
     \<and> set (antecedents r) \<subseteq> set (transactions ! idx)"
proof
  assume "(idx, r) \<in> set (matching_pairs rules transactions)"
  then obtain i row where "(i, row) \<in> set (List.enumerate 0 transactions)"
    and "(idx, r) \<in> set (map (\<lambda>r. (i, r))
           (filter (\<lambda>r. row \<noteq> [] \<and> set (antecedents r) \<subseteq> set row) rules))"
    by (auto simp: matching_pairs_def)
  then show "idx < length transactions \<and> transactions ! idx \<noteq> [] \<and> r \<in> set rules
     \<and> set (antecedents r) \<subseteq> set (transactions ! idx)"
    by (auto simp: in_set_enumerate_eq)
next
  assume a: "idx < length transactions \<and> transactions ! idx \<noteq> [] \<and> r \<in> set rules
     \<and> set (antecedents r) \<subseteq> set (transactions ! idx)"
  then have e: "(idx, transactions ! idx) \<in> set (List.enumerate 0 transactions)"
    by (simp add: in_set_enumerate_eq)
  from a e show "(idx, r) \<in> set (matching_pairs rules transactions)"
    unfolding matching_pairs_def
    by (auto intro!: bexI [of _ "(idx, transactions ! idx)"])
qed

lemma transactions_loop_pairs:
  assumes "transactions_loop rules sentiments 0 transactions [] = Inr recs"
  shows "recs = map (\<lambda>(idx, r). recommendation_of
                    (compound (sentiments ! min idx (length sentiments - 1)) > 0.05) r)
                 (matching_pairs rules transactions)"
proof -
  have "map (\<lambda>(idx, r). recommendation_of
                    (compound (sentiments ! min idx (length sentiments - 1)) > 0.05) r)
                 (matching_pairs rules transactions) =
      concat (map (\<lambda>(i, row).
       if row = [] then []
       else map (recommendation_of (compound (sentiments ! min i (length sentiments - 1)) > 0.05))
              (filter (rule_applies row) rules)) (List.enumerate 0 transactions))"
    unfolding matching_pairs_def map_concat map_map
    by (intro arg_cong [where f = concat] map_cong refl)
      (auto simp: rule_applies_fun comp_def)
  with transactions_loop_Inr [OF assms] show ?thesis
    by simp
qed

text \<open>
  Claim C2. Whatever the two mining functions return, the recommendations that
  \<open>generate_recommendations\<close> returns are, one for one and in order, built from the pairs
  of a transaction and a mined rule whose antecedent is contained in the items of that
  transaction: the recommendation at a position is built from the pair at that position,
  and a pair of a transaction and a rule is among them exactly when the transaction has
  an item and contains the antecedent of the rule. No recommendation is built for a rule
  and a transaction that does not contain its antecedent. When there is no transaction, or
  no frequent itemset, there is no recommendation.
\<close>

theorem C2_antecedent_subset:
  assumes "generate_recommendations apriori_fn association_rules_fn transactions sentiments = Inr recs"
  shows "(recs = [] \<and> (transactions = [] \<or> apriori_fn (basket transactions) (1 / 10) = Inr []))
       \<or> (\<exists>frequent_itemsets rules.
            apriori_fn (basket transactions) (1 / 10) = Inr frequent_itemsets
          \<and> frequent_itemsets \<noteq> []
          \<and> association_rules_fn frequent_itemsets 1 = Inr rules
          \<and> recs = map (\<lambda>(idx, r). recommendation_of
                          (compound (sentiments ! min idx (length sentiments - 1)) > 0.05) r)
                       (matching_pairs rules transactions)
          \<and> (\<forall>idx r. (idx, r) \<in> set (matching_pairs rules transactions) \<longleftrightarrow>
                idx < length transactions \<and> transactions ! idx \<noteq> [] \<and> r \<in> set rules
                \<and> set (antecedents r) \<subseteq> set (transactions ! idx)))"
proof (cases "transactions = [] \<or> apriori_fn (basket transactions) (1 / 10) = Inr []")
  case True
  with assms have "recs = []"
    by (auto simp: generate_recommendations_def split: if_splits)
  with True show ?thesis by blast
next
  case False
  with assms obtain frequent_itemsets rules where
    fi: "apriori_fn (basket transactions) (1 / 10) = Inr frequent_itemsets"
      "frequent_itemsets \<noteq> []"
    and ru: "association_rules_fn frequent_itemsets 1 = Inr rules"
    and lp: "transactions_loop rules sentiments 0 transactions [] = Inr recs"
    by (auto simp: generate_recommendations_def split: sum.splits if_splits)
  from transactions_loop_pairs [OF lp] fi ru matching_pairs_iff [of _ _ rules transactions]
  show ?thesis by blast
qed

text \<open>
  Claim C3. The score aligned with the transaction at position \<open>idx\<close> is the compound
  score of the row of sentiments at that position (and of the last row when there are
  fewer rows). Each recommendation returned comes from a transaction that is not empty and
  a rule that applies to it; its label is \<open>Positive\<close> and its text names the consequent
  exactly when the aligned score is greater than 0.05, otherwise its label is \<open>Negative\<close>
  and its text is the suggestion to improve the consequent. No recommendation carries the
  label \<open>Neutral\<close>. Moreover the recommendations returned are exactly these: for each
  transaction in order and each rule that applies to it in order, one recommendation.
\<close>

theorem C3_binary_sentiment:
  assumes "generate_recommendations apriori_fn association_rules_fn transactions sentiments = Inr recs"
  shows "(\<forall>rec \<in> set recs. \<exists>idx < length transactions. \<exists>r.
            transactions ! idx \<noteq> [] \<and> set (antecedents r) \<subseteq> set (transactions ! idx)
          \<and> (let score = compound (sentiments ! min idx (length sentiments - 1)) in
               rec = recommendation_of (score > 0.05) r
             \<and> (rec_sentiment rec = ''Positive'' \<longleftrightarrow> score > 0.05)
             \<and> (rec_sentiment rec = ''Negative'' \<longleftrightarrow> \<not> score > 0.05)
             \<and> rec_recommended_products rec =
                 (if score > 0.05 then join '', '' (consequents r)
                  else ''Consider improving '' @ join '', '' (consequents r))))
       \<and> (\<forall>rec \<in> set recs. rec_sentiment rec \<noteq> ''Neutral'')
       \<and> (\<forall>frequent_itemsets rules.
             apriori_fn (basket transactions) (1 / 10) = Inr frequent_itemsets
           \<and> frequent_itemsets \<noteq> []
           \<and> association_rules_fn frequent_itemsets 1 = Inr rules \<longrightarrow>
             recs = concat (map (\<lambda>(idx, row).
               if row = [] then []
               else map (recommendation_of
                           (compound (sentiments ! min idx (length sentiments - 1)) > 0.05))
                      (filter (\<lambda>r. set (antecedents r) \<subseteq> set row) rules))
               (List.enumerate 0 transactions)))"
proof -
  have a: "\<exists>idx < length transactions. \<exists>r.
            transactions ! idx \<noteq> [] \<and> set (antecedents r) \<subseteq> set (transactions ! idx)
          \<and> (let score = compound (sentiments ! min idx (length sentiments - 1)) in
               rec = recommendation_of (score > 0.05) r
             \<and> (rec_sentiment rec = ''Positive'' \<longleftrightarrow> score > 0.05)
             \<and> (rec_sentiment rec = ''Negative'' \<longleftrightarrow> \<not> score > 0.05)
             \<and> rec_recommended_products rec =
                 (if score > 0.05 then join '', '' (consequents r)
                  else ''Consider improving '' @ join '', '' (consequents r)))"
    if "rec \<in> set recs" for rec
  proof -
    from generate_recommendations_Inr [OF assms] that
    obtain rules where lp: "transactions_loop rules sentiments 0 transactions [] = Inr recs"
      by auto
    from transactions_loop_mem [OF lp that]
    obtain idx r where "idx < length transactions" "transactions ! idx \<noteq> []"
      "rule_applies (transactions ! idx) r"
      "rec = recommendation_of (compound (sentiments ! min idx (length sentiments - 1)) > 0.05) r"
      by blast
    then show ?thesis
      unfolding rule_applies_subset Let_def
      by (intro exI [of _ idx] conjI exI [of _ r]) (simp_all add: recommendation_of_fields)
  qed
  have b: "rec_sentiment rec \<noteq> ''Neutral''" if "rec \<in> set recs" for rec
    using a [OF that] by (auto simp: Let_def recommendation_of_fields)
  have c: "recs = concat (map (\<lambda>(idx, row).
               if row = [] then []
               else map (recommendation_of
                           (compound (sentiments ! min idx (length sentiments - 1)) > 0.05))
                      (filter (\<lambda>r. set (antecedents r) \<subseteq> set row) rules))
               (List.enumerate 0 transactions))"
    if "apriori_fn (basket transactions) (1 / 10) = Inr frequent_itemsets"
      "frequent_itemsets \<noteq> []" "association_rules_fn frequent_itemsets 1 = Inr rules"
    for frequent_itemsets rules
  proof (cases "transactions = []")
    case True
    with assms show ?thesis
      by (simp add: generate_recommendations_def)
  next
    case False
    with assms that have "transactions_loop rules sentiments 0 transactions [] = Inr recs"
      by (simp add: generate_recommendations_def)
    from transactions_loop_Inr [OF this] show ?thesis
      unfolding rule_applies_fun append_Nil .
  qed
  from a b c show ?thesis by blast
qed

section \<open>Properties of the miner and the empty results\<close>

lemma support_of_antimono:
  assumes "set s \<subseteq> set t"
  shows "support_of rows t \<le> support_of rows s"
proof -
  have "filter (\<lambda>row. set t \<subseteq> set row) rows =
      filter (\<lambda>row. set t \<subseteq> set row) (filter (\<lambda>row. set s \<subseteq> set row) rows)"
    using assms by (auto intro: filter_cong)
  then have "length (filter (\<lambda>row. set t \<subseteq> set row) rows) \<le>
      length (filter (\<lambda>row. set s \<subseteq> set row) rows)"
    by (metis length_filter_le)
  then show ?thesis
    by (simp add: support_of_def divide_right_mono)
qed

lemma all_itemsets_items:
  assumes "s \<in> set (all_itemsets rows)"
  shows "s \<noteq> []" and "set s \<subseteq> set (concat rows)"
proof -
  from assms show "s \<noteq> []"
    by (simp add: all_itemsets_def)
  from assms have "s \<in> set (subseqs (sort (remdups (concat rows))))"
    by (simp add: all_itemsets_def)
  then have "set s \<in> set ` set (subseqs (sort (remdups (concat rows))))"
    by (rule imageI)
  then have "set s \<subseteq> set (sort (remdups (concat rows)))"
    unfolding subseqs_powset by simp
  then show "set s \<subseteq> set (concat rows)"
    by simp
qed

lemma apriori_Nil:
  assumes "\<forall>x \<in> set (concat rows). support_of rows [x] < min_support"
  shows "apriori rows min_support = []"
proof -
  have "\<not> support_of rows s \<ge> min_support" if "s \<in> set (all_itemsets rows)" for s
  proof -
    from all_itemsets_items [OF that] obtain x where x: "x \<in> set s" "x \<in> set (concat rows)"
      by (cases s) auto
    then have "support_of rows s \<le> support_of rows [x]"
      by (intro support_of_antimono) simp
    with assms x show ?thesis
      by fastforce
  qed
  then have "filter (\<lambda>s. support_of rows s \<ge> min_support) (all_itemsets rows) = []"
    by (simp add: filter_empty_conv)
  then show ?thesis
    by (simp add: apriori_def)
qed

lemma single_product_supports:
  "\<forall>x \<in> set (concat single_product_transactions).
     support_of single_product_transactions [x] < 1 / 10"
  by code_simp

text \<open>
  Claim C4. When the list of transactions is empty, or when the miner returns no frequent
  itemset, \<open>generate_recommendations\<close> returns the empty list and raises nothing,
  whatever the sentiments and the rule function are. For the pipeline: when no review has
  a tag, there is no transaction and the result is the empty list.
\<close>

theorem C4_empty_results:
  "(transactions = [] \<or> apriori_fn (basket transactions) (1 / 10) = Inr [] \<longrightarrow>
      generate_recommendations apriori_fn association_rules_fn transactions sentiments = Inr [])
   \<and> ((\<forall>review \<in> set reviews. tags_in lower (Some review) = {}) \<longrightarrow>
        product_recommendations lower polarity_scores apriori_fn association_rules_fn reviews =
          Inr [])"
proof -
  have a: "generate_recommendations apriori_fn association_rules_fn transactions sentiments = Inr []"
    if "transactions = [] \<or> apriori_fn (basket transactions) (1 / 10) = Inr []"
    using that by (auto simp: generate_recommendations_def)
  have b: "product_recommendations lower polarity_scores apriori_fn association_rules_fn reviews =
      Inr []"
    if "\<forall>review \<in> set reviews. tags_in lower (Some review) = {}"
  proof -
    from that have "filter (\<lambda>r. tags_in lower r \<noteq> {}) (map Some reviews) = []"
      by (auto simp: filter_empty_conv)
    then have "extract_products_from_reviews lower (map Some reviews) = []"
      by (simp only: extract_tags_in list.map)
    then show ?thesis
      by (simp add: product_recommendations_def generate_recommendations_def)
  qed
  from a b show ?thesis by blast
qed

text \<open>
  Eleven transactions of one product each give every itemset a support below 0.1, so that
  mining yields nothing and the result is empty, even with no sentiment at all; so is the
  result for no transaction, and for a review without tags (with the lower-casing of
  ASCII texts).
\<close>

theorem C4_empty_results_witness:
  "spec_apriori (basket single_product_transactions) (1 / 10) = Inr []
   \<and> single_product_transactions \<noteq> []
   \<and> generate_recommendations spec_apriori spec_association_rules
        single_product_transactions [] = Inr []
   \<and> generate_recommendations spec_apriori spec_association_rules [] [] = Inr []
   \<and> tags_in ascii_lower (Some ''terrible service'') = {}
   \<and> product_recommendations ascii_lower example_polarity spec_apriori spec_association_rules
        [''terrible service''] = Inr []"
proof -
  have bk: "basket single_product_transactions = single_product_transactions"
    by code_simp
  have h: "spec_apriori (basket single_product_transactions) (1 / 10) = Inr []"
    unfolding bk spec_apriori_def using apriori_Nil [OF single_product_supports] by simp
  have ne: "single_product_transactions \<noteq> []"
    by code_simp
  have t: "tags_in ascii_lower (Some ''terrible service'') = {}"
    by code_simp
  have "generate_recommendations spec_apriori spec_association_rules
        single_product_transactions [] = Inr []"
    using C4_empty_results [of single_product_transactions spec_apriori spec_association_rules
        "[]" "[]" ascii_lower example_polarity] h
    by blast
  moreover have "generate_recommendations spec_apriori spec_association_rules [] [] = Inr []"
    using C4_empty_results [of "[]" spec_apriori spec_association_rules "[]" "[]" ascii_lower
        example_polarity]
    by blast
  moreover have "product_recommendations ascii_lower example_polarity spec_apriori
        spec_association_rules [''terrible service''] = Inr []"
    using C4_empty_results [of "[]" spec_apriori spec_association_rules "[]"
        "[''terrible service'']" ascii_lower example_polarity] t
    by simp
  ultimately show ?thesis
    using h ne t by blast
qed

text \<open>
  Claim C9. For a fixed list of transactions, raising the minimum support can only remove
  frequent itemsets: the itemsets returned at the higher threshold are among those
  returned at the lower one, and they are not more.
\<close>

theorem C9_miner_monotone:
  assumes "s1 \<le> s2"
  shows "set (apriori rows s2) \<subseteq> set (apriori rows s1)
       \<and> length (apriori rows s2) \<le> length (apriori rows s1)"
proof -
  let ?P1 = "\<lambda>s. support_of rows s \<ge> s1" and ?P2 = "\<lambda>s. support_of rows s \<ge> s2"
  have imp: "?P2 s \<Longrightarrow> ?P1 s" for s
    using assms by simp
  then have sub: "set (apriori rows s2) \<subseteq> set (apriori rows s1)"
    by (auto simp: apriori_def)
  have "filter ?P2 (all_itemsets rows) = filter ?P2 (filter ?P1 (all_itemsets rows))"
    using imp by (auto intro: filter_cong)
  then have "length (filter ?P2 (all_itemsets rows)) \<le> length (filter ?P1 (all_itemsets rows))"
    by (metis length_filter_le)
  then have "length (apriori rows s2) \<le> length (apriori rows s1)"
    by (simp add: apriori_def)
  with sub show ?thesis by blast
qed

text \<open>
  For the transactions \<open>fries, pizza\<close> and \<open>pizza\<close>: three frequent itemsets at 0.5,
  and one at 0.6.
\<close>

theorem C9_miner_monotone_witness:
  "(1 / 2 :: real) \<le> 3 / 5
   \<and> set (apriori [[''fries'', ''pizza''], [''pizza'']] (3 / 5))
       \<subseteq> set (apriori [[''fries'', ''pizza''], [''pizza'']] (1 / 2))
   \<and> length (apriori [[''fries'', ''pizza''], [''pizza'']] (3 / 5))
       \<le> length (apriori [[''fries'', ''pizza''], [''pizza'']] (1 / 2))
   \<and> map itemsets (apriori [[''fries'', ''pizza''], [''pizza'']] (3 / 5)) = [[''pizza'']]
   \<and> map itemsets (apriori [[''fries'', ''pizza''], [''pizza'']] (1 / 2)) =
       [[''fries'', ''pizza''], [''fries''], [''pizza'']]"
proof -
  have h: "(1 / 2 :: real) \<le> 3 / 5"
    by simp
  have a: "map itemsets (apriori [[''fries'', ''pizza''], [''pizza'']] (3 / 5)) = [[''pizza'']]"
    by code_simp
  have b: "map itemsets (apriori [[''fries'', ''pizza''], [''pizza'']] (1 / 2)) =
       [[''fries'', ''pizza''], [''fries''], [''pizza'']]"
    by code_simp
  from C9_miner_monotone [OF h, of "[[''fries'', ''pizza''], [''pizza'']]"] h a b
  show ?thesis by blast
qed

section \<open>The pairing of transactions and sentiments\<close>

lemma origins_extract:
  "extract_products_from_reviews lower (map Some reviews) =
     map (\<lambda>j. sorted_list_of_set (tags_in lower (Some (reviews ! j)))) (origins lower reviews)"
proof -
  have "filter (\<lambda>r. tags_in lower (Some r) \<noteq> {}) reviews =
      filter (\<lambda>r. tags_in lower (Some r) \<noteq> {}) (map (nth reviews) [0..<length reviews])"
    by (simp add: map_nth)
  also have "\<dots> = map (nth reviews) (origins lower reviews)"
    by (simp add: filter_map comp_def origins_def)
  finally show ?thesis
    by (simp add: extract_tags_in filter_map comp_def)
qed

text \<open>
  Claim C1 says that the sentiment paired with a transaction is the sentiment of the
  review the transaction was derived from. The code pairs the transaction at position
  \<open>idx\<close> of the list of transactions with the row of sentiments at the same position, and
  the sentiments have a row for every review, also for those without a transaction. In the
  example the first review has no tag: the only transaction comes from the second review
  (position 1), whose score is positive, but it is paired with the score of the first
  review, and both recommendations are phrased and labelled as negative. The two texts are
  ASCII, on which \<open>str.lower\<close> is \<open>ascii_lower\<close>.
\<close>

theorem C1_sentiment_of_another_review:
  "extract_products_from_reviews ascii_lower (map Some example_reviews) = [[''fries'', ''pizza'']]
   \<and> origins ascii_lower example_reviews = [1]
   \<and> compound (analyze_sentiments example_polarity example_reviews ! 1) = 0.6369
   \<and> compound (analyze_sentiments example_polarity example_reviews ! 0) = - 0.4767
   \<and> product_recommendations ascii_lower example_polarity spec_apriori spec_association_rules
        example_reviews =
       Inr [\<lparr>rec_rule = ''fries -> pizza'',
             rec_recommended_products = ''Consider improving pizza'',
             rec_support = 1, rec_confidence = 1, rec_lift = 1, rec_sentiment = ''Negative''\<rparr>,
            \<lparr>rec_rule = ''pizza -> fries'',
             rec_recommended_products = ''Consider improving fries'',
             rec_support = 1, rec_confidence = 1, rec_lift = 1, rec_sentiment = ''Negative''\<rparr>]"
  by code_simp

text \<open>
  The first transaction has a score above 0.05 and its recommendations are positive; the
  second has the score 0, which is not above 0.05, and its recommendation is negative.
\<close>

theorem C3_binary_sentiment_witness:
  "generate_recommendations spec_apriori spec_association_rules
     [[''fries'', ''pizza''], [''pizza'']]
     [example_polarity ''love the pizza and fries'', example_polarity ''pizza''] =
   Inr [recommendation_of True
          \<lparr>antecedents = [''fries''], consequents = [''pizza''], support = 1 / 2,
           confidence = 1, lift = 1\<rparr>,
        recommendation_of True
          \<lparr>antecedents = [''pizza''], consequents = [''fries''], support = 1 / 2,
           confidence = 1 / 2, lift = 1\<rparr>,
        recommendation_of False
          \<lparr>antecedents = [''pizza''], consequents = [''fries''], support = 1 / 2,
           confidence = 1 / 2, lift = 1\<rparr>]
   \<and> compound (example_polarity ''love the pizza and fries'') > 0.05
   \<and> \<not> compound (example_polarity ''pizza'') > 0.05
   \<and> rec_sentiment (recommendation_of False
          \<lparr>antecedents = [''pizza''], consequents = [''fries''], support = 1 / 2,
           confidence = 1 / 2, lift = 1\<rparr>) \<noteq> ''Neutral''"
proof -
  have g: "generate_recommendations spec_apriori spec_association_rules
     [[''fries'', ''pizza''], [''pizza'']]
     [example_polarity ''love the pizza and fries'', example_polarity ''pizza''] =
   Inr [recommendation_of True
          \<lparr>antecedents = [''fries''], consequents = [''pizza''], support = 1 / 2,
           confidence = 1, lift = 1\<rparr>,
        recommendation_of True
          \<lparr>antecedents = [''pizza''], consequents = [''fries''], support = 1 / 2,
           confidence = 1 / 2, lift = 1\<rparr>,
        recommendation_of False
          \<lparr>antecedents = [''pizza''], consequents = [''fries''], support = 1 / 2,
           confidence = 1 / 2, lift = 1\<rparr>]"
    by code_simp
  have s: "compound (example_polarity ''love the pizza and fries'') > 0.05"
    "\<not> compound (example_polarity ''pizza'') > 0.05"
    by code_simp+
  from C3_binary_sentiment [OF g]
  have "rec_sentiment (recommendation_of False
          \<lparr>antecedents = [''pizza''], consequents = [''fries''], support = 1 / 2,
           confidence = 1 / 2, lift = 1\<rparr>) \<noteq> ''Neutral''"
    by simp
  with g s show ?thesis by blast
qed

text \<open>
  Two transactions and the rules mined from them: the rule from \<open>pizza\<close> to \<open>fries\<close>
  applies to both transactions, the rule from \<open>fries\<close> to \<open>pizza\<close> only to the first.
  There are three pairs and three recommendations, built from them in order.
\<close>

theorem C2_antecedent_subset_witness:
  "generate_recommendations spec_apriori spec_association_rules
     [[''fries'', ''pizza''], [''pizza'']]
     [example_polarity ''love the pizza and fries'', example_polarity ''pizza''] =
   Inr [recommendation_of True
          \<lparr>antecedents = [''fries''], consequents = [''pizza''], support = 1 / 2,
           confidence = 1, lift = 1\<rparr>,
        recommendation_of True
          \<lparr>antecedents = [''pizza''], consequents = [''fries''], support = 1 / 2,
           confidence = 1 / 2, lift = 1\<rparr>,
        recommendation_of False
          \<lparr>antecedents = [''pizza''], consequents = [''fries''], support = 1 / 2,
           confidence = 1 / 2, lift = 1\<rparr>]
   \<and> (\<exists>frequent_itemsets rules.
         spec_apriori (basket [[''fries'', ''pizza''], [''pizza'']]) (1 / 10) = Inr frequent_itemsets
       \<and> frequent_itemsets \<noteq> []
       \<and> spec_association_rules frequent_itemsets 1 = Inr rules
       \<and> matching_pairs rules [[''fries'', ''pizza''], [''pizza'']] =
           [(0, \<lparr>antecedents = [''fries''], consequents = [''pizza''], support = 1 / 2,
                 confidence = 1, lift = 1\<rparr>),
            (0, \<lparr>antecedents = [''pizza''], consequents = [''fries''], support = 1 / 2,
                 confidence = 1 / 2, lift = 1\<rparr>),
            (1, \<lparr>antecedents = [''pizza''], consequents = [''fries''], support = 1 / 2,
                 confidence = 1 / 2, lift = 1\<rparr>)]
       \<and> [recommendation_of True
            \<lparr>antecedents = [''fries''], consequents = [''pizza''], support = 1 / 2,
             confidence = 1, lift = 1\<rparr>,
           recommendation_of True
            \<lparr>antecedents = [''pizza''], consequents = [''fries''], support = 1 / 2,
             confidence = 1 / 2, lift = 1\<rparr>,
           recommendation_of False
            \<lparr>antecedents = [''pizza''], consequents = [''fries''], support = 1 / 2,
             confidence = 1 / 2, lift = 1\<rparr>] =
          map (\<lambda>(idx, r). recommendation_of
                 (compound ([example_polarity ''love the pizza and fries'',
                             example_polarity ''pizza'']
                    ! min idx (length [example_polarity ''love the pizza and fries'',
                                       example_polarity ''pizza''] - 1)) > 0.05) r)
            (matching_pairs rules [[''fries'', ''pizza''], [''pizza'']]))"
  (is "?gen = Inr ?R \<and> (\<exists>frequent_itemsets rules. ?fi frequent_itemsets \<and> frequent_itemsets \<noteq> []
       \<and> ?ru frequent_itemsets rules \<and> ?mp rules \<and> ?eq rules)")
proof -
  have g: "?gen = Inr ?R"
    by code_simp
  have ne: "?R \<noteq> []"
    by simp
  from C2_antecedent_subset [OF g]
  have ex: "\<exists>frequent_itemsets rules. ?fi frequent_itemsets \<and> frequent_itemsets \<noteq> []
      \<and> ?ru frequent_itemsets rules \<and> ?eq rules"
    apply (elim disjE conjE exE)
      apply (simp only: list.distinct)
     apply (simp only: list.distinct)
    apply (intro exI conjI; assumption)
    done
  from ex obtain frequent_itemsets rules where fr: "?fi frequent_itemsets"
      "frequent_itemsets \<noteq> []" "?ru frequent_itemsets rules" "?eq rules"
    by (elim exE conjE) (rule that; assumption)
  have "spec_association_rules (apriori (basket [[''fries'', ''pizza''], [''pizza'']]) (1 / 10)) 1 =
      Inr [\<lparr>antecedents = [''fries''], consequents = [''pizza''], support = 1 / 2,
             confidence = 1, lift = 1\<rparr>,
           \<lparr>antecedents = [''pizza''], consequents = [''fries''], support = 1 / 2,
             confidence = 1 / 2, lift = 1\<rparr>]"
    by code_simp
  with fr(1,3) have rules: "rules =
      [\<lparr>antecedents = [''fries''], consequents = [''pizza''], support = 1 / 2,
         confidence = 1, lift = 1\<rparr>,
       \<lparr>antecedents = [''pizza''], consequents = [''fries''], support = 1 / 2,
         confidence = 1 / 2, lift = 1\<rparr>]"
    by (simp add: spec_apriori_def)
  have "matching_pairs
        [\<lparr>antecedents = [''fries''], consequents = [''pizza''], support = 1 / 2,
          confidence = 1, lift = 1\<rparr>,
         \<lparr>antecedents = [''pizza''], consequents = [''fries''], support = 1 / 2,
          confidence = 1 / 2, lift = 1\<rparr>]
        [[''fries'', ''pizza''], [''pizza'']] =
       [(0, \<lparr>antecedents = [''fries''], consequents = [''pizza''], support = 1 / 2,
             confidence = 1, lift = 1\<rparr>),
        (0, \<lparr>antecedents = [''pizza''], consequents = [''fries''], support = 1 / 2,
             confidence = 1 / 2, lift = 1\<rparr>),
        (1, \<lparr>antecedents = [''pizza''], consequents = [''fries''], support = 1 / 2,
             confidence = 1 / 2, lift = 1\<rparr>)]"
    by code_simp
  then have mp: "?mp rules"
    by (simp only: rules)
  show ?thesis
    by (intro conjI exI [of _ frequent_itemsets] exI [of _ rules]) (fact g fr mp)+
qed

end
